theory Spec2Isabelle
  imports Complex_Main "HOL-Library.Char_ord" "HOL-Library.List_Lexorder"
    "HOL-Library.Product_Lexorder" "HOL-Library.Multiset"
begin

section \<open>Values, cells and columns\<close>

text \<open>
  The two scripts, \<^verbatim>\<open>charts_and_grapsh.py\<close> and \<^verbatim>\<open>lobbying_chart.py\<close>, work on pandas
  tables. A floating-point entry is modelled by its value: a rational, an infinity, or NaN,
  which is the missing-value sentinel \<^verbatim>\<open>np.nan\<close>. A parsed decimal literal keeps its exact
  value; rounding to binary64, overflow and underflow are not modelled.
\<close>

datatype fval = Fin rat | PInf | NInf | NaN

text \<open>
  An entry of an \<^verbatim>\<open>object\<close> column, as \<^verbatim>\<open>read_csv\<close> and \<^verbatim>\<open>.str.strip()\<close> leave it: a text,
  the missing sentinel (a float NaN stored in the object column), or \<^verbatim>\<open>None\<close>.
  Text is a byte string (UTF-8), whose bytewise order is Python's code point order.
\<close>

datatype cell = Txt string | Missing | NoneV

text \<open>
  A column carries its dtype: numeric (\<^verbatim>\<open>int64\<close> and \<^verbatim>\<open>float64\<close> columns, by their values) or
  \<^verbatim>\<open>object\<close>.
\<close>

datatype column = NumCol "fval list" | ObjCol "cell list"

text \<open>
  The exceptions of the model: KeyError with the missing names, ValueError with its message.
  \<open>Unmodelled\<close> answers an input whose dtype this development
  does not follow through the libraries (it says so where it is used).
\<close>

datatype error = KeyError "string list" | ValueError string | Unmodelled

fun is_numeric_dtype :: "column \<Rightarrow> bool" where
  "is_numeric_dtype (NumCol _) = True"
| "is_numeric_dtype (ObjCol _) = False"

fun col_len :: "column \<Rightarrow> nat" where
  "col_len (NumCol vs) = length vs"
| "col_len (ObjCol cs) = length cs"

fun is_finite :: "fval \<Rightarrow> bool" where
  "is_finite (Fin _) = True"
| "is_finite _ = False"

section \<open>Text operations of the cleaning chain\<close>

text \<open>\<^verbatim>\<open>str(x)\<close> of an object entry: NaN prints as \<^verbatim>\<open>nan\<close>, None as \<^verbatim>\<open>None\<close>.\<close>

fun str_of_cell :: "cell \<Rightarrow> string" where
  "str_of_cell (Txt s) = s"
| "str_of_cell Missing = ''nan''"
| "str_of_cell NoneV = ''None''"

definition astype_str :: "cell list \<Rightarrow> string list" where
  "astype_str cs = map str_of_cell cs"

text \<open>\<^verbatim>\<open>.str.replace(r'[$,%]', '', regex=True)\<close>: every \<^verbatim>\<open>$\<close>, \<^verbatim>\<open>,\<close> and \<^verbatim>\<open>%\<close> is removed.\<close>

definition is_symbol :: "char \<Rightarrow> bool" where
  "is_symbol c = (c = CHR ''$'' \<or> c = CHR '','' \<or> c = CHR ''%'')"

definition str_replace_symbols :: "string list \<Rightarrow> string list" where
  "str_replace_symbols ss = map (filter (\<lambda>c. \<not> is_symbol c)) ss"

text \<open>
  \<^verbatim>\<open>.str.strip()\<close>: the whitespace of \<^verbatim>\<open>str.isspace\<close> in the ASCII range (codes 9 to 13 and
  28 to 32) is removed at both ends.
\<close>

definition is_space :: "char \<Rightarrow> bool" where
  "is_space c = (let n = (of_char c :: nat) in (9 \<le> n \<and> n \<le> 13) \<or> (28 \<le> n \<and> n \<le> 32))"

definition strip :: "string \<Rightarrow> string" where
  "strip s = rev (dropWhile is_space (rev (dropWhile is_space s)))"

definition str_strip :: "string list \<Rightarrow> string list" where
  "str_strip ss = map strip ss"

text \<open>\<^verbatim>\<open>.replace(['', 'N/A', 'nan'], np.nan)\<close>: an entry equal to one of the three texts becomes NaN.\<close>

definition replace_tokens :: "string list \<Rightarrow> cell list" where
  "replace_tokens ss = map (\<lambda>s. if s \<in> set ['''', ''N/A'', ''nan''] then Missing else Txt s) ss"

section \<open>\<^verbatim>\<open>pd.to_numeric\<close>\<close>

text \<open>
  The text-to-float conversion of pandas: optional whitespace, an optional sign, decimal
  digits with an optional fraction (at least one digit in all), an optional exponent
  \<^verbatim>\<open>e\<close> or \<^verbatim>\<open>E\<close> with an optional sign and at least one digit, optional whitespace, end of
  text. A text that is not such a literal is tried as an infinity: \<^verbatim>\<open>inf\<close> or \<^verbatim>\<open>infinity\<close>
  in any letter case, with an optional sign.
\<close>

definition is_digit :: "char \<Rightarrow> bool" where
  "is_digit c = (let n = (of_char c :: nat) in 48 \<le> n \<and> n \<le> 57)"

definition digit_val :: "char \<Rightarrow> nat" where
  "digit_val c = of_char c - 48"

definition digits_val :: "string \<Rightarrow> nat" where
  "digits_val ds = foldl (\<lambda>a c. 10 * a + digit_val c) 0 ds"

text \<open>An optional sign: whether it is a minus, and the rest of the text.\<close>

fun take_sign :: "string \<Rightarrow> bool \<times> string" where
  "take_sign [] = (False, [])"
| "take_sign (c # r) =
     (if c = CHR ''-'' then (True, r) else if c = CHR ''+'' then (False, r) else (False, c # r))"

text \<open>The fraction after the digits of the integer part: its digits and the rest.\<close>

fun take_fraction :: "string \<Rightarrow> string \<times> string" where
  "take_fraction [] = ([], [])"
| "take_fraction (c # r) =
     (if c = CHR ''.'' then (takeWhile is_digit r, dropWhile is_digit r) else ([], c # r))"

text \<open>
  The exponent: its value and the rest. An \<^verbatim>\<open>e\<close> that no digit follows is not consumed.
\<close>

fun take_exponent :: "string \<Rightarrow> int \<times> string" where
  "take_exponent [] = (0, [])"
| "take_exponent (c # r) =
     (if c = CHR ''e'' \<or> c = CHR ''E'' then
        (let (neg, r2) = take_sign r; ds = takeWhile is_digit r2 in
         if ds = [] then (0, c # r)
         else ((if neg then - int (digits_val ds) else int (digits_val ds)), dropWhile is_digit r2))
      else (0, c # r))"

definition scale10 :: "int \<Rightarrow> int \<Rightarrow> rat" where
  "scale10 m e = (if 0 \<le> e then of_int (m * 10 ^ nat e) else of_int m / of_int (10 ^ nat (- e)))"

definition parse_decimal :: "string \<Rightarrow> rat option" where
  "parse_decimal s =
     (let (neg, s2) = take_sign (dropWhile is_space s);
          ip = takeWhile is_digit s2;
          (fp, s4) = take_fraction (dropWhile is_digit s2)
      in if ip = [] \<and> fp = [] then None
         else
           (let m = int (digits_val (ip @ fp));
                (e, s5) = take_exponent s4
            in if dropWhile is_space s5 \<noteq> [] then None
               else Some (scale10 (if neg then - m else m) (e - int (length fp)))))"

definition lower :: "char \<Rightarrow> char" where
  "lower c = (let n = (of_char c :: nat) in if 65 \<le> n \<and> n \<le> 90 then char_of (n + 32) else c)"

definition parse_inf :: "string \<Rightarrow> fval option" where
  "parse_inf s =
     (let t = map lower s in
      if t \<in> set [''inf'', ''+inf'', ''infinity'', ''+infinity''] then Some PInf
      else if t \<in> set [''-inf'', ''-infinity''] then Some NInf
      else None)"

definition parse_float :: "string \<Rightarrow> fval option" where
  "parse_float s =
     (case parse_decimal s of Some q \<Rightarrow> Some (Fin q) | None \<Rightarrow> parse_inf s)"

text \<open>
  \<^verbatim>\<open>errors='raise'\<close> raises ValueError at a text that does not parse; \<^verbatim>\<open>errors='coerce'\<close>
  puts NaN there.
\<close>

datatype errors_mode = Raise | Coerce

fun numeric_of_cell :: "errors_mode \<Rightarrow> cell \<Rightarrow> error + fval" where
  "numeric_of_cell mode (Txt s) =
     (case parse_float s of
        Some v \<Rightarrow> Inr v
      | None \<Rightarrow>
          (case mode of
             Raise \<Rightarrow> Inl (ValueError (''Unable to parse string '' @ s))
           | Coerce \<Rightarrow> Inr NaN))"
| "numeric_of_cell mode Missing = Inr NaN"
| "numeric_of_cell mode NoneV = Inr NaN"

fun numeric_of_cells :: "errors_mode \<Rightarrow> cell list \<Rightarrow> error + fval list" where
  "numeric_of_cells mode [] = Inr []"
| "numeric_of_cells mode (c # cs) =
     (case numeric_of_cell mode c of
        Inl e \<Rightarrow> Inl e
      | Inr v \<Rightarrow> (case numeric_of_cells mode cs of Inl e \<Rightarrow> Inl e | Inr vs \<Rightarrow> Inr (v # vs)))"

fun to_numeric :: "errors_mode \<Rightarrow> column \<Rightarrow> error + column" where
  "to_numeric mode (NumCol vs) = Inr (NumCol vs)"
| "to_numeric mode (ObjCol cs) =
     (case numeric_of_cells mode cs of Inl e \<Rightarrow> Inl e | Inr vs \<Rightarrow> Inr (NumCol vs))"

section \<open>\<^verbatim>\<open>clean_and_convert_to_numeric\<close>\<close>

definition cleaned :: "cell list \<Rightarrow> cell list" where
  "cleaned cs = replace_tokens (str_strip (str_replace_symbols (astype_str cs)))"

fun clean_and_convert_to_numeric :: "column \<Rightarrow> error + column" where
  "clean_and_convert_to_numeric (NumCol vs) = Inr (NumCol vs)"
| "clean_and_convert_to_numeric (ObjCol cs) = to_numeric Coerce (ObjCol (cleaned cs))"

section \<open>Tables\<close>

text \<open>
  A DataFrame is its columns in order, each under its name. \<^verbatim>\<open>read_csv\<close> gives every column
  the same length and a name of its own.
\<close>

type_synonym frame = "(string \<times> column) list"

definition columns :: "frame \<Rightarrow> string list" where
  "columns df = map fst df"

fun nrows :: "frame \<Rightarrow> nat" where
  "nrows [] = 0"
| "nrows ((n, c) # _) = col_len c"

definition get_col :: "frame \<Rightarrow> string \<Rightarrow> column option" where
  "get_col df name = map_of df name"

text \<open>\<^verbatim>\<open>df[name] = col\<close>: the column of that name is replaced, or the new one is appended.\<close>

definition set_col :: "frame \<Rightarrow> string \<Rightarrow> column \<Rightarrow> frame" where
  "set_col df name col =
     (if name \<in> set (columns df) then map (\<lambda>(k, v). if k = name then (k, col) else (k, v)) df
      else df @ [(name, col)])"

text \<open>\<^verbatim>\<open>DataFrame.empty\<close>: no column or no row.\<close>

definition frame_empty :: "frame \<Rightarrow> bool" where
  "frame_empty df = (columns df = [] \<or> nrows df = 0)"

fun cell_isna :: "cell \<Rightarrow> bool" where
  "cell_isna (Txt _) = False"
| "cell_isna Missing = True"
| "cell_isna NoneV = True"

fun fval_isna :: "fval \<Rightarrow> bool" where
  "fval_isna NaN = True"
| "fval_isna _ = False"

fun isna :: "column \<Rightarrow> bool list" where
  "isna (NumCol vs) = map fval_isna vs"
| "isna (ObjCol cs) = map cell_isna cs"

text \<open>Selection by a boolean mask, \<^verbatim>\<open>df[mask]\<close>.\<close>

definition select :: "bool list \<Rightarrow> 'a list \<Rightarrow> 'a list" where
  "select keep xs = map snd (filter fst (zip keep xs))"

fun select_rows :: "bool list \<Rightarrow> column \<Rightarrow> column" where
  "select_rows keep (NumCol vs) = NumCol (select keep vs)"
| "select_rows keep (ObjCol cs) = ObjCol (select keep cs)"

definition filter_frame :: "bool list \<Rightarrow> frame \<Rightarrow> frame" where
  "filter_frame keep df = map (\<lambda>(n, c). (n, select_rows keep c)) df"

text \<open>
  \<^verbatim>\<open>df.dropna(subset=names)\<close>: KeyError with the names that are no column of the table;
  otherwise the rows that are missing in none of the named columns.
\<close>

definition keep_mask :: "frame \<Rightarrow> string list \<Rightarrow> bool list" where
  "keep_mask df names =
     foldr (\<lambda>name acc. case get_col df name of
                          None \<Rightarrow> acc
                        | Some c \<Rightarrow> map (\<lambda>(a, b). \<not> a \<and> b) (zip (isna c) acc))
           names (replicate (nrows df) True)"

definition dropna :: "frame \<Rightarrow> string list \<Rightarrow> error + frame" where
  "dropna df names =
     (let absent = filter (\<lambda>name. get_col df name = None) names in
      if absent \<noteq> [] then Inl (KeyError absent)
      else Inr (filter_frame (keep_mask df names) df))"

section \<open>Statistics and number formatting\<close>

text \<open>The order of the floats, NaN last as numpy sorts it.\<close>

fun fkey :: "fval \<Rightarrow> nat \<times> rat" where
  "fkey NInf = (0, 0)"
| "fkey (Fin q) = (1, q)"
| "fkey PInf = (2, 0)"
| "fkey NaN = (3, 0)"

definition fsorted :: "fval list \<Rightarrow> fval list" where
  "fsorted vs = sort_key fkey (filter (\<lambda>v. \<not> fval_isna v) vs)"

fun fadd :: "fval \<Rightarrow> fval \<Rightarrow> fval" where
  "fadd (Fin a) (Fin b) = Fin (a + b)"
| "fadd NaN _ = NaN"
| "fadd _ NaN = NaN"
| "fadd PInf NInf = NaN"
| "fadd NInf PInf = NaN"
| "fadd PInf _ = PInf"
| "fadd _ PInf = PInf"
| "fadd NInf _ = NInf"
| "fadd _ NInf = NInf"

fun fhalf :: "fval \<Rightarrow> fval" where
  "fhalf (Fin a) = Fin (a / 2)"
| "fhalf v = v"

text \<open>\<^verbatim>\<open>Series.min()\<close>, \<^verbatim>\<open>max()\<close> and \<^verbatim>\<open>median()\<close> skip NaN and answer NaN on no value.\<close>

definition min_val :: "fval list \<Rightarrow> fval" where
  "min_val vs = (case fsorted vs of [] \<Rightarrow> NaN | x # _ \<Rightarrow> x)"

definition max_val :: "fval list \<Rightarrow> fval" where
  "max_val vs = (case rev (fsorted vs) of [] \<Rightarrow> NaN | x # _ \<Rightarrow> x)"

definition median :: "fval list \<Rightarrow> fval" where
  "median vs =
     (let s = fsorted vs; n = length s in
      if n = 0 then NaN
      else if odd n then s ! (n div 2)
      else fhalf (fadd (s ! (n div 2 - 1)) (s ! (n div 2))))"

text \<open>\<^verbatim>\<open>unique()\<close> keeps the first occurrence of each value; \<^verbatim>\<open>nunique()\<close> counts them, NaN apart.\<close>

definition unique :: "'a list \<Rightarrow> 'a list" where
  "unique xs = rev (remdups (rev xs))"

definition nunique :: "fval list \<Rightarrow> nat" where
  "nunique vs = length (unique (filter (\<lambda>v. \<not> fval_isna v) vs))"

text \<open>
  The format \<^verbatim>\<open>{v:,.0f}\<close>: the value rounded to an integer, halves to the even neighbour,
  its digits in groups of three.
\<close>

definition round_half_even :: "rat \<Rightarrow> int" where
  "round_half_even q =
     (let f = \<lfloor>q\<rfloor>; d = q - of_int f in
      if d < 1 / 2 then f else if 1 / 2 < d then f + 1 else if even f then f else f + 1)"

fun digits_of :: "nat \<Rightarrow> string" where
  "digits_of n =
     (if n < 10 then [char_of (48 + n)] else digits_of (n div 10) @ [char_of (48 + n mod 10)])"

declare digits_of.simps [simp del]

fun commas_rev :: "string \<Rightarrow> string" where
  "commas_rev (a # b # c # d # r) = a # b # c # CHR '','' # commas_rev (d # r)"
| "commas_rev ds = ds"

definition group3 :: "string \<Rightarrow> string" where
  "group3 ds = rev (commas_rev (rev ds))"

fun format_money :: "fval \<Rightarrow> string" where
  "format_money (Fin q) =
     (if q < 0 then ''-'' else []) @ group3 (digits_of (nat (round_half_even \<bar>q\<bar>)))"
| "format_money PInf = ''inf''"
| "format_money NInf = ''-inf''"
| "format_money NaN = ''nan''"

section \<open>\<^verbatim>\<open>create_hybrid_plot\<close>\<close>

text \<open>
  What is drawn on the axes, in the order of the calls: the centered text of
  \<^verbatim>\<open>ax.text(0.5, 0.5, ...)\<close>; the violin plot (its category order and the values drawn); the
  swarm plot (its category order and the rows drawn); the median tick \<^verbatim>\<open>ax.plot\<close> at a
  position and a height; \<^verbatim>\<open>ax.annotate\<close> with its text, the position and the height of its
  point, the vertical offset of the text in points, the vertical alignment, the colour and
  whether the font is bold; the scatter plot (x, y and hue columns), histogram and regression
  line of the other charts; legend, title and axis labels.
\<close>

datatype draw =
    AxText string
  | Violin "string list" "fval list"
  | Swarm "string list" "(string \<times> fval) list"
  | MedianTick nat fval
  | Annotate string nat fval int string string bool
  | Scatter string string string
  | Hist string
  | RegLine string string
  | Legend string
  | SetTitle string
  | SetXLabel string
  | SetYLabel string

fun col_nunique :: "column \<Rightarrow> nat" where
  "col_nunique (NumCol vs) = nunique vs"
| "col_nunique (ObjCol cs) = length (unique (filter (\<lambda>c. \<not> cell_isna c) cs))"

definition nunique_of :: "frame \<Rightarrow> string \<Rightarrow> nat" where
  "nunique_of df name = (case get_col df name of None \<Rightarrow> 0 | Some c \<Rightarrow> col_nunique c)"

text \<open>
  The rows of the filtered table as the function reads them: the category label and the
  value of each row. The function is followed for a numeric value column and a text
  category column, which is what \<^verbatim>\<open>main\<close> passes (a cleaned column and \<^verbatim>\<open>Ownership\<close>);
  other dtypes are answered \<open>Unmodelled\<close>.
\<close>

definition label_row :: "cell \<times> fval \<Rightarrow> (string \<times> fval) option" where
  "label_row = (\<lambda>(c, v). case c of Txt s \<Rightarrow> Some (s, v) | _ \<Rightarrow> None)"

definition plot_rows :: "frame \<Rightarrow> string \<Rightarrow> string \<Rightarrow> error + (string \<times> fval) list" where
  "plot_rows plot_df value_col category_col =
     (case (get_col plot_df value_col, get_col plot_df category_col) of
        (Some (NumCol vs), Some (ObjCol cs)) \<Rightarrow> Inr (List.map_filter label_row (zip cs vs))
      | _ \<Rightarrow> Inl Unmodelled)"

text \<open>\<^verbatim>\<open>sorted(plot_df[category_col].unique())\<close>\<close>

definition category_order :: "(string \<times> fval) list \<Rightarrow> string list" where
  "category_order rows = sort (unique (map fst rows))"

text \<open>\<^verbatim>\<open>plot_df[plot_df[category_col] == cat][value_col]\<close>\<close>

definition cat_data :: "(string \<times> fval) list \<Rightarrow> string \<Rightarrow> fval list" where
  "cat_data rows cat = map snd (filter (\<lambda>r. fst r = cat) rows)"

text \<open>The body of the annotation loop for the category \<open>cat\<close> at position \<open>i\<close>.\<close>

definition annotate_category :: "(string \<times> fval) list \<Rightarrow> nat \<Rightarrow> string \<Rightarrow> draw list" where
  "annotate_category rows i cat =
     (case cat_data rows cat of
        [] \<Rightarrow> []
      | single_val # _ \<Rightarrow>
          if cat = ''FPG Beers & Story'' \<and> nunique (cat_data rows cat) = 1 then
            [Annotate (''$'' @ format_money single_val) i single_val 5 ''bottom'' ''black'' True]
          else
            (let median_val = median (cat_data rows cat);
                 min_val = min_val (cat_data rows cat);
                 max_val = max_val (cat_data rows cat)
             in [MedianTick i median_val,
                 Annotate (''Median: $'' @ format_money median_val) i median_val 5
                   ''bottom'' ''black'' True,
                 Annotate (''$'' @ format_money max_val) i max_val 5 ''bottom'' ''firebrick'' False,
                 Annotate (''$'' @ format_money min_val) i min_val (- 12) ''top'' ''darkgreen''
                   False]))"

definition hybrid_draw :: "(string \<times> fval) list \<Rightarrow> string \<Rightarrow> string \<Rightarrow> string \<Rightarrow> draw list" where
  "hybrid_draw rows category_col title ylabel =
     (let category_order = category_order rows;
          independent_df = filter (\<lambda>r. fst r = ''Independent'') rows
      in (if independent_df \<noteq> [] then [Violin category_order (map snd independent_df)] else [])
         @ [Swarm category_order rows]
         @ concat (map (\<lambda>(i, cat). annotate_category rows i cat) (enumerate 0 category_order))
         @ [SetTitle title, SetXLabel category_col, SetYLabel ylabel])"

definition create_hybrid_plot ::
  "frame \<Rightarrow> string \<Rightarrow> string \<Rightarrow> string \<Rightarrow> string \<Rightarrow> error + draw list" where
  "create_hybrid_plot df value_col category_col title ylabel =
     (case dropna df [value_col, category_col] of
        Inl e \<Rightarrow> Inl e
      | Inr plot_df \<Rightarrow>
          if frame_empty plot_df \<or> nunique_of plot_df category_col = 0 then
            Inr [AxText (''No data available for '' @ title)]
          else
            (case plot_rows plot_df value_col category_col of
               Inl e \<Rightarrow> Inl e
             | Inr rows \<Rightarrow> Inr (hybrid_draw rows category_col title ylabel)))"

section \<open>\<^verbatim>\<open>main\<close> of the survey charts\<close>

text \<open>
  What a run leaves behind: the lines printed to standard output and the image files
  written, each with what was drawn on it.
\<close>

record run =
  console :: "string list"
  saved :: "(string \<times> draw list) list"

fun strip_cell :: "cell \<Rightarrow> cell" where
  "strip_cell (Txt s) = Txt (strip s)"
| "strip_cell Missing = Missing"
| "strip_cell NoneV = Missing"

text \<open>The whitespace pass over the \<^verbatim>\<open>object\<close> columns.\<close>

definition strip_object_columns :: "frame \<Rightarrow> frame" where
  "strip_object_columns df =
     map (\<lambda>(n, c). case c of ObjCol cs \<Rightarrow> (n, ObjCol (map strip_cell cs)) | NumCol vs \<Rightarrow> (n, c)) df"

definition cols_to_clean :: "string list" where
  "cols_to_clean =
     [''Latitude'', ''Longitude'', ''BasicServicesFee'', ''DirectCremationLowestPrice'',
      ''DirectCremation_Pct_Change'', ''ImmediateBurialLowestPrice'']"

text \<open>
  The cleaning loop: the table and the lines printed so far go in; the lines printed and
  the table, or the exception that ended the loop, come out.
\<close>

fun clean_columns :: "string list \<Rightarrow> frame \<Rightarrow> string list \<Rightarrow> string list \<times> (error + frame)" where
  "clean_columns [] df out = (out, Inr df)"
| "clean_columns (col # rest) df out =
     (case get_col df col of
        Some c \<Rightarrow>
          (case clean_and_convert_to_numeric c of
             Inl e \<Rightarrow> (out, Inl e)
           | Inr c' \<Rightarrow> clean_columns rest (set_col df (col @ ''_cleaned'') c') out)
      | None \<Rightarrow>
          clean_columns rest df
            (out @ [''Warning: Column '' @ [CHR 0x27] @ col @ [CHR 0x27]
                    @ '' not found in the CSV file.'']))"

text \<open>
  A chart that plots the rows left by \<^verbatim>\<open>dropna\<close>, or the placeholder text when none is left.
\<close>

definition chart :: "frame \<Rightarrow> string list \<Rightarrow> draw list \<Rightarrow> string \<Rightarrow> error + draw list" where
  "chart df names plot nodata =
     (case dropna df names of
        Inl e \<Rightarrow> Inl e
      | Inr plot_df \<Rightarrow> Inr (if \<not> frame_empty plot_df then plot else [AxText nodata]))"

text \<open>The eight visualizations in the order of the script, each with its file name.\<close>

definition charts :: "frame \<Rightarrow> (string \<times> (error + draw list)) list" where
  "charts df =
     [(''geographic_distribution.png'',
       chart df [''Latitude_cleaned'', ''Longitude_cleaned'', ''Ownership'']
         [Scatter ''Longitude_cleaned'' ''Latitude_cleaned'' ''Ownership'',
          SetTitle ''Geographic Distribution of Funeral Homes by Ownership'',
          SetXLabel ''Longitude'', SetYLabel ''Latitude'', Legend ''Ownership'']
         ''No data for Geographic Distribution plot.''),
      (''cremation_price_distribution.png'',
       chart df [''DirectCremationLowestPrice_cleaned'']
         [Hist ''DirectCremationLowestPrice_cleaned'',
          SetTitle ''Distribution of Direct Cremation Lowest Price'',
          SetXLabel ''Price ($)'', SetYLabel ''Number of Funeral Homes'']
         ''No data for Direct Cremation Price plot.''),
      (''immediate_burial_price_distribution.png'',
       chart df [''ImmediateBurialLowestPrice_cleaned'']
         [Hist ''ImmediateBurialLowestPrice_cleaned'',
          SetTitle ''Distribution of Immediate Burial Lowest Price'',
          SetXLabel ''Price ($)'', SetYLabel ''Number of Funeral Homes'']
         ''No data for Immediate Burial Price plot.''),
      (''basic_services_fee_hybrid_plot.png'',
       create_hybrid_plot df ''BasicServicesFee_cleaned'' ''Ownership''
         ''Distribution of Basic Services Fee by Ownership Type'' ''Basic Services Fee ($)''),
      (''direct_cremation_hybrid_plot.png'',
       create_hybrid_plot df ''DirectCremationLowestPrice_cleaned'' ''Ownership''
         ''Distribution of Direct Cremation Price by Ownership Type''
         ''Direct Cremation Lowest Price ($)''),
      (''immediate_burial_hybrid_plot.png'',
       create_hybrid_plot df ''ImmediateBurialLowestPrice_cleaned'' ''Ownership''
         ''Distribution of Immediate Burial Price by Ownership Type''
         ''Immediate Burial Lowest Price ($)''),
      (''cremation_percentage_change.png'',
       chart df [''DirectCremation_Pct_Change_cleaned'']
         [Hist ''DirectCremation_Pct_Change_cleaned'',
          SetTitle ''Distribution of Percentage Change in Direct Cremation Price'',
          SetXLabel ''Percentage Change (%)'', SetYLabel ''Number of Funeral Homes'']
         ''No data for Cremation Pct. Change plot.''),
      (''fee_vs_cremation_price.png'',
       chart df [''BasicServicesFee_cleaned'', ''DirectCremationLowestPrice_cleaned'', ''Ownership'']
         [Scatter ''DirectCremationLowestPrice_cleaned'' ''BasicServicesFee_cleaned'' ''Ownership'',
          RegLine ''DirectCremationLowestPrice_cleaned'' ''BasicServicesFee_cleaned'',
          SetTitle ''Basic Services Fee vs. Direct Cremation Price by Ownership'',
          SetXLabel ''Direct Cremation Lowest Price ($)'', SetYLabel ''Basic Services Fee ($)'']
         ''No data for Fee vs. Cremation Price plot.'')]"

text \<open>The text of an exception, as \<^verbatim>\<open>{e}\<close> prints it.\<close>

fun join :: "string \<Rightarrow> string list \<Rightarrow> string" where
  "join sep [] = []"
| "join sep [s] = s"
| "join sep (s # t # ss) = s @ sep @ join sep (t # ss)"

fun error_text :: "error \<Rightarrow> string" where
  "error_text (KeyError names) =
     ''['' @ join '', '' (map (\<lambda>n. [CHR 0x27] @ n @ [CHR 0x27]) names) @ '']''"
| "error_text (ValueError msg) = msg"
| "error_text Unmodelled = []"

text \<open>
  The charts are made one after the other, each saved when it is drawn. The first
  exception ends the run in the handler \<^verbatim>\<open>except Exception as e\<close>, which prints it; the
  files saved before stay.
\<close>

fun run_charts :: "(string \<times> (error + draw list)) list \<Rightarrow> run \<Rightarrow> run" where
  "run_charts [] r =
     r\<lparr>console := console r @ [''Plots have been saved to the script'' @ [CHR 0x27]
                                @ ''s directory as PNG files.'']\<rparr>"
| "run_charts ((file, Inl e) # rest) r =
     r\<lparr>console := console r @ [''An unexpected error occurred: '' @ error_text e]\<rparr>"
| "run_charts ((file, Inr drawn) # rest) r =
     run_charts rest (r\<lparr>saved := saved r @ [(file, drawn)]\<rparr>)"

text \<open>
  \<^verbatim>\<open>main\<close>, given what \<^verbatim>\<open>read_csv('oct10-fh-data.csv')\<close> loads: \<open>None\<close> when the file is
  not there.
\<close>

definition main :: "frame option \<Rightarrow> run" where
  "main csv =
     (case csv of
        None \<Rightarrow>
          \<lparr>console = [''Error: '' @ [CHR 0x27] @ ''oct10-fh-data.csv'' @ [CHR 0x27]
                      @ '' not found. Please ensure it'' @ [CHR 0x27]
                      @ ''s in the same directory.''],
           saved = []\<rparr>
      | Some df0 \<Rightarrow>
          (case clean_columns cols_to_clean (strip_object_columns df0) [] of
             (out, Inl e) \<Rightarrow>
               \<lparr>console = out @ [''An unexpected error occurred: '' @ error_text e], saved = []\<rparr>
           | (out, Inr df) \<Rightarrow> run_charts (charts df) \<lparr>console = out, saved = []\<rparr>))"

section \<open>The lobbying chart\<close>

text \<open>
  The table \<^verbatim>\<open>read_csv\<close> loads from the text embedded in \<^verbatim>\<open>lobbying_chart.py\<close>. The first
  year is not a number, so the column \<^verbatim>\<open>Year\<close> is an \<^verbatim>\<open>object\<close> column of texts; the other
  columns are integers.
\<close>

definition data :: frame where
  "data =
     [(''Year'', ObjCol [Txt ''2025(*Jan-June)'', Txt ''2024'', Txt ''2023'', Txt ''2022'',
          Txt ''2021'', Txt ''2020'', Txt ''2019'', Txt ''2018'', Txt ''2017'', Txt ''2016'',
          Txt ''2015'']),
      (''Yearth Funeral Group Inc.'',
       NumCol [Fin 22911, Fin 0, Fin 0, Fin 0, Fin 0, Fin 0, Fin 0, Fin 0, Fin 0, Fin 0, Fin 0]),
      (''Massachusetts Funeral Directors Association'',
       NumCol [Fin 41000, Fin 92166, Fin 58000, Fin 28000, Fin 28678, Fin 14428, Fin 14000,
          Fin 10000, Fin 14000, Fin 14000, Fin 14000]),
      (''Affiliated Family Funeral Service Inc.'',
       NumCol [Fin 3750, Fin 0, Fin 0, Fin 0, Fin 0, Fin 0, Fin 0, Fin 0, Fin 0, Fin 0, Fin 0]),
      (''Massachusetts Cemetery Association'',
       NumCol [Fin 9000, Fin 18000, Fin 16000, Fin 12000, Fin 12000, Fin 12000, Fin 12000,
          Fin 12000, Fin 12000, Fin 12000, Fin 12000]),
      (''Proprietors of the Cemetery of Mount Auburn'',
       NumCol [Fin 36610, Fin 60000, Fin 60910, Fin 54750, Fin 0, Fin 0, Fin 0, Fin 0, Fin 0,
          Fin 0, Fin 0]),
      (''Total'',
       NumCol [Fin 113271, Fin 172190, Fin 136933, Fin 96772, Fin 42699, Fin 28448, Fin 28019,
          Fin 24018, Fin 28017, Fin 28016, Fin 28015])]"

text \<open>\<^verbatim>\<open>.str.extract(r'(\d{4})')\<close>: the first four digits in a row, if there are any.\<close>

fun extract_year :: "string \<Rightarrow> string option" where
  "extract_year [] = None"
| "extract_year (c # r) =
     (if 4 \<le> length (c # r) \<and> list_all is_digit (take 4 (c # r)) then Some (take 4 (c # r))
      else extract_year r)"

text \<open>
  \<^verbatim>\<open>.astype(int)\<close> of the extracted texts: ValueError where nothing was extracted, since NaN
  is no integer.
\<close>

fun astype_int :: "string option list \<Rightarrow> error + fval list" where
  "astype_int [] = Inr []"
| "astype_int (None # ms) =
     Inl (ValueError ''Cannot convert non-finite values (NA or inf) to integer'')"
| "astype_int (Some ds # ms) =
     (case astype_int ms of Inl e \<Rightarrow> Inl e | Inr ys \<Rightarrow> Inr (Fin (of_nat (digits_val ds)) # ys))"

text \<open>The column \<^verbatim>\<open>Year\<close> as integers. A numeric column is not followed.\<close>

fun year_column :: "column \<Rightarrow> error + fval list" where
  "year_column (ObjCol cs) = astype_int (map extract_year (astype_str cs))"
| "year_column (NumCol vs) = Inl Unmodelled"

text \<open>\<^verbatim>\<open>(df['Year'] >= 2017) & (df['Year'] <= 2024)\<close>\<close>

fun in_years :: "fval \<Rightarrow> bool" where
  "in_years (Fin y) = (2017 \<le> y \<and> y \<le> 2024)"
| "in_years _ = False"

definition funeral_groups :: "string list" where
  "funeral_groups =
     [''Yearth Funeral Group Inc.'', ''Massachusetts Funeral Directors Association'',
      ''Affiliated Family Funeral Service Inc.'']"

definition cemetery_groups :: "string list" where
  "cemetery_groups =
     [''Massachusetts Cemetery Association'', ''Proprietors of the Cemetery of Mount Auburn'']"

text \<open>
  \<^verbatim>\<open>df[names].sum(axis=1)\<close>: KeyError with the names that are no column; the sum of each row
  over the named columns, a NaN counting as nothing. Text columns are not followed.
\<close>

fun numeric_columns :: "column list \<Rightarrow> error + fval list list" where
  "numeric_columns [] = Inr []"
| "numeric_columns (NumCol vs # cs) =
     (case numeric_columns cs of Inl e \<Rightarrow> Inl e | Inr vss \<Rightarrow> Inr (vs # vss))"
| "numeric_columns (ObjCol _ # cs) = Inl Unmodelled"

definition fadd_skipna :: "fval \<Rightarrow> fval \<Rightarrow> fval" where
  "fadd_skipna a b = (if fval_isna b then a else fadd a b)"

definition row_sums :: "nat \<Rightarrow> fval list list \<Rightarrow> fval list" where
  "row_sums n vss = foldl (\<lambda>acc vs. map (\<lambda>(a, b). fadd_skipna a b) (zip acc vs)) (replicate n (Fin 0)) vss"

definition sum_columns :: "frame \<Rightarrow> string list \<Rightarrow> error + fval list" where
  "sum_columns df names =
     (let absent = filter (\<lambda>name. get_col df name = None) names in
      if absent \<noteq> [] then Inl (KeyError absent)
      else
        (case numeric_columns (List.map_filter (get_col df) names) of
           Inl e \<Rightarrow> Inl e
         | Inr vss \<Rightarrow> Inr (row_sums (nrows df) vss)))"

text \<open>
  The script up to \<^verbatim>\<open>df_agg\<close>: the rows of year, funeral group spending and cemetery group
  spending, sorted by year.
\<close>

definition aggregate :: "frame \<Rightarrow> error + (fval \<times> fval \<times> fval) list" where
  "aggregate df0 =
     (case get_col df0 ''Year'' of
        None \<Rightarrow> Inl (KeyError [''Year''])
      | Some yc \<Rightarrow>
          (case year_column yc of
             Inl e \<Rightarrow> Inl e
           | Inr years \<Rightarrow>
               (let df1 = set_col df0 ''Year'' (NumCol years);
                    df = filter_frame (map in_years years) df1
                in case sum_columns df funeral_groups of
                     Inl e \<Rightarrow> Inl e
                   | Inr funeral \<Rightarrow>
                       (case sum_columns df cemetery_groups of
                          Inl e \<Rightarrow> Inl e
                        | Inr cemetery \<Rightarrow>
                            Inr (sort_key (\<lambda>r. fkey (fst r))
                                   (zip (select (map in_years years) years)
                                      (zip funeral cemetery)))))))"

definition df_agg :: "error + (fval \<times> fval \<times> fval) list" where
  "df_agg = aggregate data"

section \<open>Notions of the statements\<close>

text \<open>
  What the cleaning chain makes of one entry of an \<^verbatim>\<open>object\<close> column: the text it is parsed
  from, and the float it becomes.
\<close>

definition clean_text :: "cell \<Rightarrow> string" where
  "clean_text c = strip (filter (\<lambda>x. \<not> is_symbol x) (str_of_cell c))"

definition clean_entry :: "cell \<Rightarrow> fval" where
  "clean_entry c = (case parse_float (clean_text c) of None \<Rightarrow> NaN | Some v \<Rightarrow> v)"

text \<open>Every column of the table has the table's number of rows.\<close>

definition wf_frame :: "frame \<Rightarrow> bool" where
  "wf_frame df = list_all (\<lambda>(n, c). col_len c = nrows df) df"

text \<open>The rows \<^verbatim>\<open>create_hybrid_plot\<close> works on: those of the table after \<^verbatim>\<open>dropna\<close>.\<close>

definition filtered_rows :: "frame \<Rightarrow> string \<Rightarrow> string \<Rightarrow> error + (string \<times> fval) list" where
  "filtered_rows df value_col category_col =
     (case dropna df [value_col, category_col] of
        Inl e \<Rightarrow> Inl e
      | Inr plot_df \<Rightarrow> plot_rows plot_df value_col category_col)"

text \<open>The table with its rows in another order: row \<open>p ! j\<close> of the table becomes row \<open>j\<close>.\<close>

fun permute_column :: "nat list \<Rightarrow> column \<Rightarrow> column" where
  "permute_column p (NumCol vs) = NumCol (map (\<lambda>j. vs ! j) p)"
| "permute_column p (ObjCol cs) = ObjCol (map (\<lambda>j. cs ! j) p)"

definition permute_rows :: "nat list \<Rightarrow> frame \<Rightarrow> frame" where
  "permute_rows p df = map (\<lambda>(n, c). (n, permute_column p c)) df"

text \<open>Inputs on which the statements are tried.\<close>

definition survey_example :: frame where
  "survey_example =
     [(''BasicServicesFee_cleaned'', NumCol [Fin 1000, Fin 2500, NaN, Fin 1800]),
      (''Ownership'', ObjCol [Txt ''Independent'', Txt ''FPG Beers & Story'', Txt ''SCI'',
          Txt ''Independent''])]"

definition survey_rows :: "(string \<times> fval) list" where
  "survey_rows =
     [(''Independent'', Fin 1000), (''FPG Beers & Story'', Fin 2500), (''Independent'', Fin 1800)]"

definition no_data_example :: frame where
  "no_data_example =
     [(''BasicServicesFee_cleaned'', NumCol [NaN, Fin 5]),
      (''Ownership'', ObjCol [Txt ''Independent'', Missing])]"

text \<open>A table as \<^verbatim>\<open>read_csv\<close> loads it, without the column \<^verbatim>\<open>ImmediateBurialLowestPrice\<close>.\<close>

definition missing_column_csv :: frame where
  "missing_column_csv =
     [(''Latitude'', NumCol [Fin 42]),
      (''Longitude'', NumCol [Fin (- 71)]),
      (''BasicServicesFee'', ObjCol [Txt ''$1,000'']),
      (''DirectCremationLowestPrice'', ObjCol [Txt ''$995'']),
      (''DirectCremation_Pct_Change'', ObjCol [Txt ''12%'']),
      (''Ownership'', ObjCol [Txt ''Independent''])]"

definition missing_column_cleaned :: frame where
  "missing_column_cleaned =
     missing_column_csv @
     [(''Latitude_cleaned'', NumCol [Fin 42]),
      (''Longitude_cleaned'', NumCol [Fin (- 71)]),
      (''BasicServicesFee_cleaned'', NumCol [Fin 1000]),
      (''DirectCremationLowestPrice_cleaned'', NumCol [Fin 995]),
      (''DirectCremation_Pct_Change_cleaned'', NumCol [Fin 12])]"

section \<open>The numeric cleaning\<close>

lemma numeric_of_cells_coerce:
  "numeric_of_cells Coerce cs =
     Inr (map (\<lambda>c. case c of Txt s \<Rightarrow> (case parse_float s of None \<Rightarrow> NaN | Some v \<Rightarrow> v) | _ \<Rightarrow> NaN) cs)"
  by (induction cs) (auto split: cell.splits option.splits)

lemma parse_float_tokens:
  "parse_float [] = None" "parse_float ''N/A'' = None" "parse_float ''nan'' = None"
  by code_simp+

lemma clean_entry_cleaned:
  "(case (if clean_text c \<in> set ['''', ''N/A'', ''nan''] then Missing else Txt (clean_text c)) of
      Txt s \<Rightarrow> (case parse_float s of None \<Rightarrow> NaN | Some v \<Rightarrow> v) | _ \<Rightarrow> NaN) = clean_entry c"
  by (auto simp: clean_entry_def parse_float_tokens)

lemma clean_ObjCol:
  "clean_and_convert_to_numeric (ObjCol cs) = Inr (NumCol (map clean_entry cs))"
proof -
  have "cleaned cs = map (\<lambda>c. if clean_text c \<in> set ['''', ''N/A'', ''nan''] then Missing else Txt (clean_text c)) cs"
    by (simp add: cleaned_def replace_tokens_def str_strip_def str_replace_symbols_def
        astype_str_def clean_text_def)
  then show ?thesis
    using clean_entry_cleaned by (simp add: numeric_of_cells_coerce comp_def)
qed

declare clean_and_convert_to_numeric.simps(2) [simp del]

lemmas eval_defs = cleaned_def astype_str_def str_replace_symbols_def str_strip_def
  replace_tokens_def strip_def is_symbol_def is_space_def parse_float_def parse_decimal_def
  parse_inf_def lower_def is_digit_def digits_val_def digit_val_def scale10_def

text \<open>
  Claim C1, as amended. For every column the function returns, without raising, a numeric
  column of the same length. A numeric column comes back as it is, infinite entries
  included; of an \<^verbatim>\<open>object\<close> column every entry becomes the float its cleaned text
  parses to, which may be an infinity, or NaN when the text does not parse.
\<close>

theorem clean_total:
  "(\<exists>c'. clean_and_convert_to_numeric c = Inr c' \<and> is_numeric_dtype c' \<and> col_len c' = col_len c)
   \<and> clean_and_convert_to_numeric (NumCol xs) = Inr (NumCol xs)
   \<and> clean_and_convert_to_numeric (ObjCol cs) = Inr (NumCol (map clean_entry cs))
   \<and> (parse_float (clean_text x) = None \<longrightarrow> clean_entry x = NaN)"
  by (cases c) (simp_all add: clean_ObjCol clean_entry_def)

theorem clean_total_witness:
  "parse_float (clean_text (Txt ''n.a.'')) = None
   \<and> clean_entry (Txt ''n.a.'') = NaN
   \<and> clean_and_convert_to_numeric (ObjCol [Txt ''$5'', Txt ''n.a.''])
       = Inr (NumCol [clean_entry (Txt ''$5''), NaN])"
proof -
  have h: "parse_float (clean_text (Txt ''n.a.'')) = None"
    by (simp add: clean_text_def eval_defs)
  from clean_total [of "ObjCol []" "[]" "[Txt ''$5'', Txt ''n.a.'']" "Txt ''n.a.''"] h
  show ?thesis by simp
qed

text \<open>
  Claim C1 as it is stated fails: the entries are not always finite or missing. The text
  \<^verbatim>\<open>inf\<close> becomes the float infinity, and an infinity in a numeric column stays.
\<close>

theorem clean_not_finite:
  "clean_and_convert_to_numeric (ObjCol [Txt ''inf'']) = Inr (NumCol [PInf])
   \<and> clean_and_convert_to_numeric (NumCol [PInf]) = Inr (NumCol [PInf])
   \<and> \<not> (is_finite PInf \<or> fval_isna PInf)"
  by code_simp

text \<open>
  Claim C2. Cleaning is idempotent: cleaning the column that cleaning returned gives that
  column again, and a column that is numeric already comes back unmodified.
\<close>

theorem clean_idempotent:
  "(\<exists>c'. clean_and_convert_to_numeric c = Inr c' \<and> clean_and_convert_to_numeric c' = Inr c')
   \<and> clean_and_convert_to_numeric (NumCol vs) = Inr (NumCol vs)"
  by (cases c) (simp_all add: clean_ObjCol)

text \<open>
  Claim C3. The entries \<^verbatim>\<open>$1,234.50\<close>, \<^verbatim>\<open>12%\<close> and \<^verbatim>\<open> 7 \<close> become 1234.5, 12 and 7; the
  empty text, \<^verbatim>\<open>N/A\<close> and \<^verbatim>\<open>nan\<close> become the missing sentinel.
\<close>

theorem clean_examples:
  "clean_and_convert_to_numeric (ObjCol [Txt ''$1,234.50'']) = Inr (NumCol [Fin (2469 / 2)])
   \<and> clean_and_convert_to_numeric (ObjCol [Txt ''12%'']) = Inr (NumCol [Fin 12])
   \<and> clean_and_convert_to_numeric (ObjCol [Txt '' 7 '']) = Inr (NumCol [Fin 7])
   \<and> clean_and_convert_to_numeric (ObjCol [Txt []]) = Inr (NumCol [NaN])
   \<and> clean_and_convert_to_numeric (ObjCol [Txt ''N/A'']) = Inr (NumCol [NaN])
   \<and> clean_and_convert_to_numeric (ObjCol [Txt ''nan'']) = Inr (NumCol [NaN])"
proof -
  have a: "clean_and_convert_to_numeric (ObjCol [Txt ''$1,234.50'']) = Inr (NumCol [Fin (2469 / 2)])"
    by (simp add: clean_and_convert_to_numeric.simps eval_defs)
  have b: "clean_and_convert_to_numeric (ObjCol [Txt ''12%'']) = Inr (NumCol [Fin 12])"
    by (simp add: clean_and_convert_to_numeric.simps eval_defs)
  have c: "clean_and_convert_to_numeric (ObjCol [Txt '' 7 '']) = Inr (NumCol [Fin 7])"
    by (simp add: clean_and_convert_to_numeric.simps eval_defs)
  have d: "clean_and_convert_to_numeric (ObjCol [Txt []]) = Inr (NumCol [NaN])"
    by (simp add: clean_and_convert_to_numeric.simps eval_defs)
  have e: "clean_and_convert_to_numeric (ObjCol [Txt ''N/A'']) = Inr (NumCol [NaN])"
    by (simp add: clean_and_convert_to_numeric.simps eval_defs)
  have f: "clean_and_convert_to_numeric (ObjCol [Txt ''nan'']) = Inr (NumCol [NaN])"
    by (simp add: clean_and_convert_to_numeric.simps eval_defs)
  from a b c d e f show ?thesis by blast
qed

lemma clean_entry_missing: "clean_entry Missing = NaN" "clean_entry NoneV = NaN"
  by code_simp+

text \<open>
  Claim C9. A missing entry is never turned into a number: where the input entry is
  missing, the output entry is NaN.
\<close>

theorem clean_keeps_missing:
  assumes "i < col_len c" and "isna c ! i"
  shows "\<exists>vs. clean_and_convert_to_numeric c = Inr (NumCol vs) \<and> i < length vs \<and> vs ! i = NaN"
proof (cases c)
  case (NumCol xs)
  with assms have "fval_isna (xs ! i)" by simp
  then have "xs ! i = NaN" by (cases "xs ! i") simp_all
  with NumCol assms show ?thesis by simp
next
  case (ObjCol cs)
  with assms have "cell_isna (cs ! i)" by simp
  then have "clean_entry (cs ! i) = NaN"
    by (cases "cs ! i") (simp_all add: clean_entry_missing)
  with ObjCol assms show ?thesis by (simp add: clean_ObjCol)
qed

theorem clean_keeps_missing_witness:
  "1 < col_len (ObjCol [Txt ''$1,000'', Missing])
   \<and> isna (ObjCol [Txt ''$1,000'', Missing]) ! 1
   \<and> (\<exists>vs. clean_and_convert_to_numeric (ObjCol [Txt ''$1,000'', Missing]) = Inr (NumCol vs)
         \<and> 1 < length vs \<and> vs ! 1 = NaN)"
proof -
  have h1: "1 < col_len (ObjCol [Txt ''$1,000'', Missing])" by simp
  have h2: "isna (ObjCol [Txt ''$1,000'', Missing]) ! 1" by simp
  from clean_keeps_missing [OF h1 h2] h1 h2 show ?thesis by blast
qed

lemma missing_roundtrip:
  "astype_str [Missing] = [''nan''] \<and> cleaned [Missing] = [Missing]"
  by code_simp

section \<open>The lobbying table\<close>

text \<open>
  Claim C8. The year of \<^verbatim>\<open>2025(*Jan-June)\<close> is extracted as 2025; of the rows of 2017 to
  2024, the one of 2024 has funeral group spending 92166 and cemetery group spending 78000.
\<close>

theorem lobbying_2024:
  "df_agg =
     Inr [(Fin 2017, Fin 14000, Fin 12000), (Fin 2018, Fin 10000, Fin 12000),
          (Fin 2019, Fin 14000, Fin 12000), (Fin 2020, Fin 14428, Fin 12000),
          (Fin 2021, Fin 28678, Fin 12000), (Fin 2022, Fin 28000, Fin 66750),
          (Fin 2023, Fin 58000, Fin 76910), (Fin 2024, Fin 92166, Fin 78000)]
   \<and> extract_year ''2025(*Jan-June)'' = Some ''2025''"
  by (simp add: df_agg_def aggregate_def data_def get_col_def set_col_def columns_def
      astype_str_def is_digit_def digits_val_def digit_val_def filter_frame_def select_def
      sum_columns_def funeral_groups_def cemetery_groups_def row_sums_def fadd_skipna_def
      List.map_filter_def)

section \<open>The example tables\<close>

lemmas frame_defs = filtered_rows_def dropna_def get_col_def keep_mask_def filter_frame_def
  select_def plot_rows_def List.map_filter_def label_row_def

lemma survey_example_rows:
  "filtered_rows survey_example ''BasicServicesFee_cleaned'' ''Ownership'' = Inr survey_rows"
  by (simp add: frame_defs survey_example_def survey_rows_def)

lemma survey_order:
  "category_order survey_rows = [''FPG Beers & Story'', ''Independent'']"
  by (simp add: category_order_def unique_def survey_rows_def)

lemma wf_survey: "wf_frame survey_example"
  by (simp add: wf_frame_def survey_example_def)

lemma perm_survey: "mset [2, 0, 3, 1] = mset [0..<nrows survey_example]"
  by (simp add: survey_example_def eval_nat_numeral)

section \<open>The filtered rows and the category order\<close>

lemma set_select:
  "set (select keep xs) = {xs ! i | i. i < length xs \<and> i < length keep \<and> keep ! i}"
  by (auto simp: select_def set_zip image_iff) force

lemma select_zip:
  "zip (select keep xs) (select keep ys) = select keep (zip xs ys)"
proof (induction keep arbitrary: xs ys)
  case Nil
  then show ?case by (simp add: select_def)
next
  case (Cons k keep)
  show ?case
  proof (cases xs)
    case Nil
    then show ?thesis by (simp add: select_def)
  next
    case xs: (Cons x xs')
    show ?thesis
    proof (cases ys)
      case Nil
      then show ?thesis by (simp add: select_def)
    next
      case ys: (Cons y ys')
      from Cons.IH [of xs' ys'] show ?thesis
        by (simp add: xs ys select_def)
    qed
  qed
qed

lemma get_col_filter_frame:
  "get_col (filter_frame keep df) name = map_option (select_rows keep) (get_col df name)"
  by (simp add: get_col_def filter_frame_def map_of_map)

lemma keep_mask_sound:
  "i < length (keep_mask df names) \<Longrightarrow> keep_mask df names ! i \<Longrightarrow> name \<in> set names
   \<Longrightarrow> get_col df name = Some col \<Longrightarrow> i < col_len col \<and> \<not> isna col ! i"
proof (induction names)
  case Nil
  then show ?case by simp
next
  case (Cons a names)
  have len_isna: "\<And>c. length (isna c) = col_len c"
    by (case_tac c) simp_all
  show ?case
  proof (cases "get_col df a")
    case None
    with Cons show ?thesis by (auto simp: keep_mask_def)
  next
    case (Some ca)
    from Cons.prems(1,2) Some
    have i1: "i < col_len ca" and i2: "i < length (keep_mask df names)"
      and k1: "\<not> isna ca ! i" and k2: "keep_mask df names ! i"
      by (auto simp: keep_mask_def len_isna)
    show ?thesis
    proof (cases "name = a")
      case True
      with Some Cons.prems(4) i1 k1 show ?thesis by simp
    next
      case False
      with Cons.prems(3) have "name \<in> set names" by simp
      from Cons.IH [OF i2 k2 this Cons.prems(4)] show ?thesis .
    qed
  qed
qed

lemma filtered_rows_Inr:
  assumes "filtered_rows df value_col category_col = Inr rows"
  shows "\<exists>vs cs. get_col df value_col = Some (NumCol vs) \<and> get_col df category_col = Some (ObjCol cs)
          \<and> rows = List.map_filter label_row
                     (select (keep_mask df [value_col, category_col]) (zip cs vs))"
proof -
  from assms obtain plot_df where d: "dropna df [value_col, category_col] = Inr plot_df"
    and p: "plot_rows plot_df value_col category_col = Inr rows"
    by (auto simp: filtered_rows_def split: sum.splits)
  from d have pd: "plot_df = filter_frame (keep_mask df [value_col, category_col]) df"
    by (auto simp: dropna_def Let_def split: if_splits)
  from p obtain vs' cs' where g: "get_col plot_df value_col = Some (NumCol vs')"
      "get_col plot_df category_col = Some (ObjCol cs')"
    and r: "rows = List.map_filter label_row (zip cs' vs')"
    by (auto simp: plot_rows_def split: option.splits column.splits)
  from g(1) pd obtain vs where v: "get_col df value_col = Some (NumCol vs)"
    and vs': "vs' = select (keep_mask df [value_col, category_col]) vs"
    by (auto simp: get_col_filter_frame) (case_tac z, auto)
  from g(2) pd obtain cs where c: "get_col df category_col = Some (ObjCol cs)"
    and cs': "cs' = select (keep_mask df [value_col, category_col]) cs"
    by (auto simp: get_col_filter_frame) (case_tac z, auto)
  from r vs' cs' have "rows = List.map_filter label_row
                     (select (keep_mask df [value_col, category_col]) (zip cs vs))"
    by (simp add: select_zip)
  with v c show ?thesis by blast
qed

lemma set_map_filter: "set (List.map_filter f xs) = {y. \<exists>x \<in> set xs. f x = Some y}"
  by (induction xs) (auto simp: List.map_filter_def)

lemma filtered_rows_not_nan:
  assumes "filtered_rows df value_col category_col = Inr rows" and "(s, x) \<in> set rows"
  shows "x \<noteq> NaN"
proof -
  from filtered_rows_Inr [OF assms(1)] obtain vs cs where
    v: "get_col df value_col = Some (NumCol vs)" and
    r: "rows = List.map_filter label_row
                     (select (keep_mask df [value_col, category_col]) (zip cs vs))"
    by blast
  let ?k = "keep_mask df [value_col, category_col]"
  from assms(2) r obtain c where "(c, x) \<in> set (select ?k (zip cs vs))"
    by (auto simp: set_map_filter label_row_def split: cell.splits)
  then obtain i where i: "i < length ?k" "?k ! i" "i < length (zip cs vs)" "zip cs vs ! i = (c, x)"
    by (auto simp: set_select)
  have "value_col \<in> set [value_col, category_col]" by simp
  from keep_mask_sound [OF i(1) i(2) this v]
  have "i < length vs" "\<not> fval_isna (vs ! i)" by auto
  moreover from i(3,4) have "vs ! i = x" by simp
  ultimately show ?thesis by auto
qed

lemma set_unique: "set (unique xs) = set xs"
  by (simp add: unique_def)

lemma distinct_unique: "distinct (unique xs)"
  by (simp add: unique_def)

lemma category_order_props:
  "sorted (category_order rows) \<and> distinct (category_order rows)
   \<and> set (category_order rows) = fst ` set rows"
  by (simp add: category_order_def set_unique distinct_unique)

lemma category_order_cong:
  assumes "fst ` set rows' = fst ` set rows"
  shows "category_order rows' = category_order rows"
proof (rule sorted_distinct_set_unique)
  show "set (category_order rows') = set (category_order rows)"
    using assms by (simp add: category_order_props)
qed (simp_all add: category_order_props)

lemma cat_data_nonempty:
  "cat \<in> set (category_order rows) \<Longrightarrow> cat_data rows cat \<noteq> []"
  by (auto simp: category_order_props cat_data_def filter_empty_conv)

lemma length_isna: "length (isna c) = col_len c"
  by (cases c) simp_all

lemma wf_frame_col_len:
  "wf_frame df \<Longrightarrow> get_col df name = Some col \<Longrightarrow> col_len col = nrows df"
  by (auto simp: wf_frame_def get_col_def list_all_iff dest!: map_of_SomeD)

lemma keep_mask_wf:
  assumes "wf_frame df"
  shows "length (keep_mask df names) = nrows df
         \<and> (\<forall>i<nrows df. keep_mask df names ! i
               = (\<forall>name\<in>set names. \<forall>col. get_col df name = Some col \<longrightarrow> \<not> isna col ! i))"
proof (induction names)
  case Nil
  then show ?case by (simp add: keep_mask_def)
next
  case (Cons a names)
  have step: "keep_mask df (a # names)
     = (case get_col df a of None \<Rightarrow> keep_mask df names
        | Some c \<Rightarrow> map (\<lambda>(x, y). \<not> x \<and> y) (zip (isna c) (keep_mask df names)))"
    unfolding keep_mask_def by simp
  show ?case
  proof (cases "get_col df a")
    case None
    with Cons step show ?thesis by auto
  next
    case (Some c)
    from wf_frame_col_len [OF assms Some] have len: "length (isna c) = nrows df"
      by (simp add: length_isna)
    with Cons Some step show ?thesis by auto
  qed
qed

lemma filtered_rows_eq:
  assumes "get_col df value_col = Some (NumCol vs)"
    and "get_col df category_col = Some (ObjCol cs)"
  shows "filtered_rows df value_col category_col
         = Inr (List.map_filter label_row
                  (select (keep_mask df [value_col, category_col]) (zip cs vs)))"
  using assms
  by (simp add: filtered_rows_def dropna_def plot_rows_def get_col_filter_frame select_zip)

lemma filtered_rows_set:
  assumes wf: "wf_frame df"
    and v: "get_col df value_col = Some (NumCol vs)"
    and c: "get_col df category_col = Some (ObjCol cs)"
  shows "\<exists>rows. filtered_rows df value_col category_col = Inr rows
           \<and> set rows = {(s, x). \<exists>i<nrows df. cs ! i = Txt s \<and> vs ! i = x \<and> x \<noteq> NaN}"
proof -
  let ?k = "keep_mask df [value_col, category_col]"
  let ?rows = "List.map_filter label_row (select ?k (zip cs vs))"
  from wf_frame_col_len [OF wf v] have lv: "length vs = nrows df" by simp
  from wf_frame_col_len [OF wf c] have lc: "length cs = nrows df" by simp
  from keep_mask_wf [OF wf, of "[value_col, category_col]"] v c
  have lk: "length ?k = nrows df"
    and k: "\<And>i. i < nrows df \<Longrightarrow> ?k ! i = (\<not> fval_isna (vs ! i) \<and> \<not> cell_isna (cs ! i))"
    using lv lc by auto
  have nan: "\<And>x. fval_isna x = (x = NaN)" by (case_tac x) simp_all
  have "set ?rows = {(s, x). \<exists>i<nrows df. cs ! i = Txt s \<and> vs ! i = x \<and> x \<noteq> NaN}"
  proof (intro set_eqI iffI; clarify)
    fix s x assume "(s, x) \<in> set ?rows"
    then obtain cc where "(cc, x) \<in> set (select ?k (zip cs vs))" and cc: "cc = Txt s"
      by (auto simp: set_map_filter label_row_def split: cell.splits)
    then obtain i where "i < nrows df" "?k ! i" "cs ! i = cc" "vs ! i = x"
      using lv lc lk by (auto simp: set_select)
    with k cc nan show "\<exists>i<nrows df. cs ! i = Txt s \<and> vs ! i = x \<and> x \<noteq> NaN" by auto
  next
    fix s i assume i: "i < nrows df" "cs ! i = Txt s" "vs ! i \<noteq> NaN"
    with k nan have "?k ! i" by simp
    with i lv lc lk have "(Txt s, vs ! i) \<in> set (select ?k (zip cs vs))"
      by (auto simp: set_select intro!: exI [of _ i])
    then show "(s, vs ! i) \<in> set ?rows"
      by (auto simp: set_map_filter label_row_def intro!: bexI [of _ "(Txt s, vs ! i)"])
  qed
  with filtered_rows_eq [OF v c] show ?thesis by blast
qed

lemma get_col_permute_rows:
  "get_col (permute_rows p df) name = map_option (permute_column p) (get_col df name)"
  by (simp add: get_col_def permute_rows_def map_of_map)

lemma col_len_permute: "col_len (permute_column p c) = length p"
  by (cases c) simp_all

lemma nrows_permute_rows: "df \<noteq> [] \<Longrightarrow> nrows (permute_rows p df) = length p"
  by (cases df) (auto simp: permute_rows_def col_len_permute)

lemma wf_permute_rows: "wf_frame (permute_rows p df)"
proof (cases df)
  case Nil
  then show ?thesis by (simp add: wf_frame_def permute_rows_def)
next
  case (Cons a list)
  then have "nrows (permute_rows p df) = length p" by (simp add: nrows_permute_rows)
  then show ?thesis
    by (auto simp: wf_frame_def list_all_iff permute_rows_def col_len_permute)
qed

text \<open>
  Claim C5. The category order is the sorted list, without repetition, of the category
  labels of the filtered rows, in the lexicographic order of the texts; and the table with
  its rows permuted gives the same category order.
\<close>

theorem category_order_lexicographic:
  assumes wf: "wf_frame df"
    and p: "mset p = mset [0..<nrows df]"
    and r: "filtered_rows df value_col category_col = Inr rows"
  shows "sorted (category_order rows) \<and> distinct (category_order rows)
         \<and> set (category_order rows) = fst ` set rows
         \<and> (\<exists>rows'. filtered_rows (permute_rows p df) value_col category_col = Inr rows'
               \<and> category_order rows' = category_order rows)"
proof -
  from filtered_rows_Inr [OF r] obtain vs cs where
    v: "get_col df value_col = Some (NumCol vs)" and c: "get_col df category_col = Some (ObjCol cs)"
    by blast
  from v have ne: "df \<noteq> []" by (auto simp: get_col_def)
  from p have lp: "length p = nrows df" by (metis length_upt minus_nat.diff_0 size_mset)
  from p have sp: "set p = {0..<nrows df}" by (metis mset_eq_setD set_upt)
  from filtered_rows_set [OF wf v c] r
  have s: "set rows = {(s, x). \<exists>i<nrows df. cs ! i = Txt s \<and> vs ! i = x \<and> x \<noteq> NaN}"
    by simp
  let ?df = "permute_rows p df"
  have v': "get_col ?df value_col = Some (NumCol (map (\<lambda>j. vs ! j) p))"
    and c': "get_col ?df category_col = Some (ObjCol (map (\<lambda>j. cs ! j) p))"
    using v c by (simp_all add: get_col_permute_rows)
  from filtered_rows_set [OF wf_permute_rows v' c'] obtain rows' where
    r': "filtered_rows ?df value_col category_col = Inr rows'" and
    s': "set rows' = {(s, x). \<exists>i<nrows ?df. map (\<lambda>j. cs ! j) p ! i = Txt s
                         \<and> map (\<lambda>j. vs ! j) p ! i = x \<and> x \<noteq> NaN}"
    by blast
  have "set rows' = set rows"
  proof (intro set_eqI iffI; clarify)
    fix s x assume "(s, x) \<in> set rows'"
    with s' obtain j where j: "j < length p" "cs ! (p ! j) = Txt s" "vs ! (p ! j) = x" "x \<noteq> NaN"
      by (auto simp: nrows_permute_rows [OF ne])
    from j(1) sp have "p ! j < nrows df" using nth_mem by fastforce
    with j s show "(s, x) \<in> set rows" by auto
  next
    fix s x assume "(s, x) \<in> set rows"
    with s obtain i where i: "i < nrows df" "cs ! i = Txt s" "vs ! i = x" "x \<noteq> NaN" by auto
    from i(1) sp have "i \<in> set p" by simp
    then obtain j where "j < length p" "p ! j = i" by (auto simp: in_set_conv_nth)
    with i s' show "(s, x) \<in> set rows'"
      by (auto simp: nrows_permute_rows [OF ne] intro!: exI [of _ j])
  qed
  then have "category_order rows' = category_order rows"
    by (intro category_order_cong) simp
  with r' category_order_props [of rows] show ?thesis by blast
qed

theorem category_order_lexicographic_witness:
  "wf_frame survey_example
   \<and> mset [2, 0, 3, 1] = mset [0..<nrows survey_example]
   \<and> filtered_rows survey_example ''BasicServicesFee_cleaned'' ''Ownership'' = Inr survey_rows
   \<and> sorted (category_order survey_rows) \<and> distinct (category_order survey_rows)
   \<and> set (category_order survey_rows) = fst ` set survey_rows
   \<and> (\<exists>rows'. filtered_rows (permute_rows [2, 0, 3, 1] survey_example)
                  ''BasicServicesFee_cleaned'' ''Ownership'' = Inr rows'
         \<and> category_order rows' = category_order survey_rows)"
  using category_order_lexicographic [OF wf_survey perm_survey survey_example_rows]
    wf_survey perm_survey survey_example_rows
  by blast

text \<open>
  Claim C10. Every label of the category order has at least one row, with values that are
  not missing, in the filtered table; so the annotation loop never meets an empty
  category and annotates each one.
\<close>

theorem annotation_guard_unreachable:
  assumes "filtered_rows df value_col category_col = Inr rows"
    and "cat \<in> set (category_order rows)"
  shows "cat_data rows cat \<noteq> [] \<and> NaN \<notin> set (cat_data rows cat)
         \<and> annotate_category rows i cat \<noteq> []"
proof -
  have ne: "cat_data rows cat \<noteq> []" using assms(2) by (rule cat_data_nonempty)
  have nn: "NaN \<notin> set (cat_data rows cat)"
  proof
    assume "NaN \<in> set (cat_data rows cat)"
    then have "(cat, NaN) \<in> set rows" by (auto simp: cat_data_def)
    from filtered_rows_not_nan [OF assms(1) this] show False by simp
  qed
  from ne have "annotate_category rows i cat \<noteq> []"
    by (auto simp: annotate_category_def Let_def split: list.splits)
  with ne nn show ?thesis by blast
qed

theorem annotation_guard_unreachable_witness:
  "filtered_rows survey_example ''BasicServicesFee_cleaned'' ''Ownership'' = Inr survey_rows
   \<and> ''Independent'' \<in> set (category_order survey_rows)
   \<and> cat_data survey_rows ''Independent'' \<noteq> []
   \<and> NaN \<notin> set (cat_data survey_rows ''Independent'')
   \<and> annotate_category survey_rows 1 ''Independent'' \<noteq> []"
proof -
  have h: "''Independent'' \<in> set (category_order survey_rows)"
    by (simp add: survey_order)
  from annotation_guard_unreachable [OF survey_example_rows h, of 1] survey_example_rows h
  show ?thesis by blast
qed

section \<open>The empty table\<close>

text \<open>
  Claim C6. When the table left by dropping the rows that miss the value or the category
  is empty, the function draws the centered placeholder text and returns normally.
\<close>

theorem empty_table_placeholder:
  assumes "dropna df [value_col, category_col] = Inr plot_df" and "frame_empty plot_df"
  shows "create_hybrid_plot df value_col category_col title ylabel
         = Inr [AxText (''No data available for '' @ title)]"
  using assms by (simp add: create_hybrid_plot_def)

theorem empty_table_placeholder_witness:
  "dropna no_data_example [''BasicServicesFee_cleaned'', ''Ownership'']
     = Inr [(''BasicServicesFee_cleaned'', NumCol []), (''Ownership'', ObjCol [])]
   \<and> frame_empty [(''BasicServicesFee_cleaned'', NumCol []), (''Ownership'', ObjCol [])]
   \<and> create_hybrid_plot no_data_example ''BasicServicesFee_cleaned'' ''Ownership''
        ''Distribution of Basic Services Fee by Ownership Type'' ''Basic Services Fee ($)''
      = Inr [AxText ''No data available for Distribution of Basic Services Fee by Ownership Type'']"
proof -
  have h1: "dropna no_data_example [''BasicServicesFee_cleaned'', ''Ownership'']
     = Inr [(''BasicServicesFee_cleaned'', NumCol []), (''Ownership'', ObjCol [])]"
    by (simp add: frame_defs no_data_example_def)
  have h2: "frame_empty [(''BasicServicesFee_cleaned'', NumCol []), (''Ownership'', ObjCol [])]"
    by (simp add: frame_empty_def columns_def)
  from empty_table_placeholder [OF h1 h2,
      of "''Distribution of Basic Services Fee by Ownership Type''" "''Basic Services Fee ($)''"]
    h1 h2
  show ?thesis by simp
qed

section \<open>The annotations\<close>










section \<open>A missing column\<close>

lemma clean_missing_column:
  "clean_columns cols_to_clean (strip_object_columns missing_column_csv) []
   = ([''Warning: Column '' @ [CHR 0x27] @ ''ImmediateBurialLowestPrice'' @ [CHR 0x27]
         @ '' not found in the CSV file.''],
      Inr missing_column_cleaned)"
  by (simp add: cols_to_clean_def strip_object_columns_def missing_column_csv_def
      missing_column_cleaned_def get_col_def set_col_def columns_def clean_ObjCol
      clean_entry_def clean_text_def strip_def is_symbol_def is_space_def parse_float_def
      parse_decimal_def is_digit_def digits_val_def digit_val_def scale10_def)

lemma viz1:
  "chart missing_column_cleaned [''Latitude_cleaned'', ''Longitude_cleaned'', ''Ownership'']
     plot nodata = Inr plot"
  by (simp add: chart_def dropna_def get_col_def keep_mask_def filter_frame_def select_def
      frame_empty_def columns_def missing_column_cleaned_def missing_column_csv_def)

lemma viz2:
  "chart missing_column_cleaned [''DirectCremationLowestPrice_cleaned''] plot nodata = Inr plot"
  by (simp add: chart_def dropna_def get_col_def keep_mask_def filter_frame_def select_def
      frame_empty_def columns_def missing_column_cleaned_def missing_column_csv_def)

lemma viz3:
  "chart missing_column_cleaned [''ImmediateBurialLowestPrice_cleaned''] plot nodata
   = Inl (KeyError [''ImmediateBurialLowestPrice_cleaned''])"
  by (simp add: chart_def dropna_def get_col_def missing_column_cleaned_def
      missing_column_csv_def)

text \<open>
  Claim C4 on a table without the column \<^verbatim>\<open>ImmediateBurialLowestPrice\<close>: the warning is
  printed and the cleaned column is not made, but the first chart that reads it raises
  KeyError in \<^verbatim>\<open>dropna\<close>; the handler prints it as an unexpected error and the run ends
  with two of the eight images written. No placeholder is drawn, and the five later
  charts, four of which do not read the missing column, are never made.
\<close>

theorem missing_column_aborts:
  "main (Some missing_column_csv)
   = \<lparr>console =
        [''Warning: Column '' @ [CHR 0x27] @ ''ImmediateBurialLowestPrice'' @ [CHR 0x27]
           @ '' not found in the CSV file.'',
         ''An unexpected error occurred: ['' @ [CHR 0x27]
           @ ''ImmediateBurialLowestPrice_cleaned'' @ [CHR 0x27] @ '']''],
      saved =
        [(''geographic_distribution.png'',
          [Scatter ''Longitude_cleaned'' ''Latitude_cleaned'' ''Ownership'',
           SetTitle ''Geographic Distribution of Funeral Homes by Ownership'',
           SetXLabel ''Longitude'', SetYLabel ''Latitude'', Legend ''Ownership'']),
         (''cremation_price_distribution.png'',
          [Hist ''DirectCremationLowestPrice_cleaned'',
           SetTitle ''Distribution of Direct Cremation Lowest Price'',
           SetXLabel ''Price ($)'', SetYLabel ''Number of Funeral Homes''])]\<rparr>"
proof -
  let ?w = "''Warning: Column '' @ [CHR 0x27] @ ''ImmediateBurialLowestPrice'' @ [CHR 0x27]
         @ '' not found in the CSV file.''"
  have m: "main (Some missing_column_csv)
     = run_charts (charts missing_column_cleaned) \<lparr>console = [?w], saved = []\<rparr>"
    unfolding main_def by (simp only: option.case clean_missing_column prod.case sum.case)
  show ?thesis
    unfolding m charts_def viz1 viz2 viz3 by simp
qed

end
